theory Spec2Isabelle
  imports Complex_Main "HOL-Library.AList" "HOL-Library.Log_Nat" "HOL-Library.Sublist"
begin

section \<open>Python strings\<close>

text \<open>
  A Python \<open>str\<close> is modelled as a \<open>string\<close>: every \<open>char\<close> stands for one code
  point below 256, so \<open>length\<close> is Python's \<open>len\<close> on such strings. A \<open>str\<close> with a
  code point of 256 or more has no \<open>string\<close> and is outside the model. A slice
  \<open>s[i:j]\<close> with literal non-negative bounds clamps both bounds to the length and never
  raises.
\<close>

definition slice :: "string \<Rightarrow> nat \<Rightarrow> nat \<Rightarrow> string" where
  "slice s i j =
     (let n = length s; lo = min i n; hi = min j n
      in if lo < hi then map (\<lambda>k. s ! k) [lo..<hi] else [])"

text \<open>
  \<open>str.isdigit\<close>: true when the string is not empty and every character has the Unicode
  property Numeric_Type=Digit or Numeric_Type=Decimal. Below code point 256 these are
  the ASCII digits 0-9 (48-57) and the superscript digits two, three and one
  (178, 179, 185). The digits of other scripts, which \<open>str.isdigit\<close> accepts as well,
  are above 255: no \<open>char\<close> stands for them.
\<close>

definition isdigit_char :: "char \<Rightarrow> bool" where
  "isdigit_char c =
     (let n = (of_char c :: nat) in (48 \<le> n \<and> n \<le> 57) \<or> n = 178 \<or> n = 179 \<or> n = 185)"

definition isdigit :: "string \<Rightarrow> bool" where
  "isdigit s = (s \<noteq> [] \<and> list_all isdigit_char s)"

text \<open>The decimal digits 0-9, the reading of "digit" in the bucket naming convention.\<close>

definition decimal_digit :: "char \<Rightarrow> bool" where
  "decimal_digit c = (let n = (of_char c :: nat) in 48 \<le> n \<and> n \<le> 57)"

section \<open>aggregate\_logs.py: format\_datetime\<close>

definition format_datetime :: "string \<Rightarrow> string" where
  "format_datetime folder_name =
     (let year = slice folder_name 0 4;
          month = slice folder_name 4 6;
          day = slice folder_name 6 8;
          hour = slice folder_name 8 10
      in year @ ''/'' @ month @ ''/'' @ day @ '' '' @ hour)"

section \<open>The file system\<close>

text \<open>
  The file system is a finite table from the path strings the program builds
  (\<open>./logs\<close>, \<open>./logs/2024112314\<close>, \<open>./output/2024112314.txt\<close>) to nodes. The first
  entry for a path counts. Paths are not normalised, there are no links and no
  permissions: an operation on a node of the right kind succeeds.
\<close>

datatype node = File string | Dir

type_synonym fs = "(string \<times> node) list"

datatype exn =
    FileNotFoundError
  | NotADirectoryError
  | FileExistsError
  | IsADirectoryError
  | TypeError
  | KeyError
  | AnalysisException
  | IllegalArgumentException

text \<open>\<open>os.path.join(a, b)\<close> and \<open>os.path.dirname(p)\<close> of posixpath.\<close>

definition path_join :: "string \<Rightarrow> string \<Rightarrow> string" where
  "path_join a b =
     (if b \<noteq> [] \<and> hd b = CHR ''/'' then b
      else if a = [] \<or> last a = CHR ''/'' then a @ b
      else a @ ''/'' @ b)"

definition dirname :: "string \<Rightarrow> string" where
  "dirname p =
     (let head = rev (dropWhile (\<lambda>c. c \<noteq> CHR ''/'') (rev p))
      in if head \<noteq> [] \<and> \<not> list_all (\<lambda>c. c = CHR ''/'') head
         then rev (dropWhile (\<lambda>c. c = CHR ''/'') (rev head)) else head)"

text \<open>The entry names of a directory: the paths one component below it.\<close>

definition child_name :: "string \<Rightarrow> string \<Rightarrow> string option" where
  "child_name d p =
     (let pre = d @ ''/''; n = drop (length pre) p
      in if take (length pre) p = pre \<and> n \<noteq> [] \<and> CHR ''/'' \<notin> set n then Some n else None)"

definition children :: "fs \<Rightarrow> string \<Rightarrow> string list" where
  "children t d = remdups (List.map_filter (\<lambda>(p, x). child_name d p) t)"

definition listdir :: "fs \<Rightarrow> string \<Rightarrow> exn + string list" where
  "listdir t p =
     (case map_of t p of
        None \<Rightarrow> Inl FileNotFoundError
      | Some (File c) \<Rightarrow> Inl NotADirectoryError
      | Some Dir \<Rightarrow> Inr (children t p))"

text \<open>
  \<open>os.makedirs(p, exist_ok=True)\<close>: an existing directory is left alone, an existing file
  raises FileExistsError, otherwise the directory is created. The program calls it on
  \<open>./output\<close> only, whose parent is the working directory, so the creation of missing
  parents is left out.
\<close>

definition makedirs_exist_ok :: "fs \<Rightarrow> string \<Rightarrow> exn + fs" where
  "makedirs_exist_ok t p =
     (case map_of t p of
        Some Dir \<Rightarrow> Inr t
      | Some (File c) \<Rightarrow> Inl FileExistsError
      | None \<Rightarrow> Inr (t @ [(p, Dir)]))"

text \<open>
  \<open>with open(p, 'a') as f: f.write(...)\<close>: the text is put after the content the file
  has; a missing file is created in its directory, which has to exist.
\<close>

definition open_append :: "fs \<Rightarrow> string \<Rightarrow> string \<Rightarrow> exn + fs" where
  "open_append t p txt =
     (case map_of t p of
        Some Dir \<Rightarrow> Inl IsADirectoryError
      | Some (File c) \<Rightarrow> Inr (AList.update p (File (c @ txt)) t)
      | None \<Rightarrow>
          (if dirname p = [] then Inr (t @ [(p, File txt)])
           else case map_of t (dirname p) of
                  Some Dir \<Rightarrow> Inr (t @ [(p, File txt)])
                | Some (File c) \<Rightarrow> Inl NotADirectoryError
                | None \<Rightarrow> Inl FileNotFoundError))"

text \<open>
  \<open>glob.glob(os.path.join(d, "*.txt"))\<close>: the entries of \<open>d\<close> whose name ends in \<open>.txt\<close>
  and does not start with a dot, each joined to \<open>d\<close>; the empty list when \<open>d\<close> cannot be
  scanned. Files and directories both match.
\<close>

definition matches_txt :: "string \<Rightarrow> bool" where
  "matches_txt n = (n \<noteq> [] \<and> hd n \<noteq> CHR ''.'' \<and> suffix ''.txt'' n)"

definition glob_txt :: "fs \<Rightarrow> string \<Rightarrow> string list" where
  "glob_txt t d =
     (case map_of t d of
        Some Dir \<Rightarrow> map (path_join d) (filter matches_txt (children t d))
      | _ \<Rightarrow> [])"

section \<open>aggregate\_logs.py: get\_hour\_folders\<close>

definition get_hour_folders :: "fs \<Rightarrow> string \<Rightarrow> exn + string list" where
  "get_hour_folders t base_path =
     (case listdir t base_path of
        Inl e \<Rightarrow> Inl e
      | Inr ds \<Rightarrow> Inr (filter (\<lambda>d. length d = 10 \<and> isdigit d) ds))"

section \<open>Python floats\<close>

text \<open>
  A Python \<open>float\<close> is an IEEE 754 binary64 value: a finite value, given by the rational
  number it stands for (\<open>Finite 0\<close> is \<open>0.0\<close>), negative zero, an infinity or NaN.
  \<open>round_ieee prec emin emax\<close> rounds a rational to the nearest value with \<open>prec\<close>
  significant bits, ties to even, with \<open>2 ^ emin\<close> the smallest positive value; a
  rounded value of \<open>2 ^ emax\<close> or more overflows to an infinity.
\<close>

datatype pyfloat = Finite rat | NegZero | PosInf | NegInf | NaN

definition pow2 :: "int \<Rightarrow> rat" where
  "pow2 k = (if 0 \<le> k then 2 ^ nat k else 1 / 2 ^ nat (- k))"

text \<open>For \<open>a > 0\<close>, the exponent \<open>e\<close> with \<open>2 ^ e \<le> a < 2 ^ (e + 1)\<close>.\<close>

definition floor_log2 :: "rat \<Rightarrow> int" where
  "floor_log2 a =
     (let (n, d) = quotient_of a; e = bitlen n - bitlen d
      in if pow2 e \<le> a then e else e - 1)"

definition round_half_even :: "rat \<Rightarrow> int" where
  "round_half_even x =
     (let f = \<lfloor>x\<rfloor>; r = x - of_int f
      in if r < 1 / 2 then f else if 1 / 2 < r then f + 1 else if even f then f else f + 1)"

definition round_ieee :: "nat \<Rightarrow> int \<Rightarrow> int \<Rightarrow> rat \<Rightarrow> pyfloat" where
  "round_ieee prec emin emax q =
     (if q = 0 then Finite 0
      else let a = \<bar>q\<bar>;
               k = max (floor_log2 a - (int prec - 1)) emin;
               r = of_int (round_half_even (a / pow2 k)) * pow2 k
           in if r = 0 then (if 0 < q then Finite 0 else NegZero)
              else if emax \<le> floor_log2 r then (if 0 < q then PosInf else NegInf)
              else Finite (if 0 < q then r else - r))"

definition round_double :: "rat \<Rightarrow> pyfloat" where
  "round_double = round_ieee 53 (- 1074) 1024"

definition round_single :: "rat \<Rightarrow> pyfloat" where
  "round_single = round_ieee 24 (- 149) 128"

text \<open>\<open>x + y\<close> on floats.\<close>

fun fadd :: "pyfloat \<Rightarrow> pyfloat \<Rightarrow> pyfloat" where
  "fadd NaN y = NaN"
| "fadd x NaN = NaN"
| "fadd PosInf NegInf = NaN"
| "fadd NegInf PosInf = NaN"
| "fadd PosInf y = PosInf"
| "fadd x PosInf = PosInf"
| "fadd NegInf y = NegInf"
| "fadd x NegInf = NegInf"
| "fadd NegZero y = y"
| "fadd x NegZero = x"
| "fadd (Finite a) (Finite b) = round_double (a + b)"

text \<open>
  \<open>f"{x:.2f}"\<close>: the exact value rounded to two decimals, ties to even; the sign is kept
  when the digits round to zero; the special values print as \<open>inf\<close>, \<open>-inf\<close>, \<open>nan\<close>.
\<close>

function decimal :: "int \<Rightarrow> string" where
  "decimal n =
     (if n < 10 then [char_of (48 + n)] else decimal (n div 10) @ [char_of (48 + n mod 10)])"
  by pat_completeness auto
termination
  by (relation "measure nat") auto

declare decimal.simps [simp del]

definition format_2f :: "pyfloat \<Rightarrow> string" where
  "format_2f x =
     (case x of
        NaN \<Rightarrow> ''nan''
      | PosInf \<Rightarrow> ''inf''
      | NegInf \<Rightarrow> ''-inf''
      | NegZero \<Rightarrow> ''-0.00''
      | Finite q \<Rightarrow>
          (let n = round_half_even (\<bar>q\<bar> * 100)
           in (if q < 0 then ''-'' else '''') @ decimal (n div 100) @ ''.''
              @ [char_of (48 + n mod 100 div 10), char_of (48 + n mod 10)]))"

text \<open>\<open>f"{product}"\<close> for a product name that may be \<open>None\<close>.\<close>

definition format_str :: "string option \<Rightarrow> string" where
  "format_str p = (case p of None \<Rightarrow> ''None'' | Some s \<Rightarrow> s)"

section \<open>The Spark session\<close>

text \<open>
  What the session does outside the program is a parameter: \<open>read_csv\<close> gives the records
  of the file at a path, each the list of its \<open>|\<close>-separated fields with \<open>None\<close> for an
  empty one, or the exception raised when the path cannot be read; \<open>cast_float\<close> is the
  cast of a string to \<open>float\<close>, \<open>None\<close> (null) for a string that is not a number. The
  DataFrame operations the program calls are defined on top: the reader's permissive
  mode, \<open>toDF\<close>, the cast of a column, and \<open>groupBy\<close> with \<open>sum\<close>. A DataFrame is
  modelled by its rows, computed when it is built.
\<close>

type_synonym csv_record = "string option list"

record spark_session =
  read_csv :: "fs \<Rightarrow> string \<Rightarrow> exn + csv_record list"
  cast_float :: "string \<Rightarrow> pyfloat option"

record csv_frame =
  width :: nat
  recs :: "csv_record list"

text \<open>
  \<open>spark.read.option("delimiter", "|").csv(file_path)\<close> with no schema: the number of
  columns is the number of fields of the first record; a shorter record is filled with
  nulls and a longer one is cut.
\<close>

definition fit :: "nat \<Rightarrow> csv_record \<Rightarrow> csv_record" where
  "fit n r = take n r @ replicate (n - length r) None"

definition csv :: "spark_session \<Rightarrow> fs \<Rightarrow> string \<Rightarrow> exn + csv_frame" where
  "csv session t file_path =
     (case read_csv session t file_path of
        Inl e \<Rightarrow> Inl e
      | Inr rs \<Rightarrow>
          (let n = (case rs of [] \<Rightarrow> 0 | r # _ \<Rightarrow> length r)
           in Inr \<lparr>width = n, recs = map (fit n) rs\<rparr>))"

record 'p log_row =
  timestamp :: "string option"
  id' :: "string option"
  product_name :: "string option"
  price :: 'p

text \<open>\<open>df.toDF("timestamp", "id", "product_name", "price")\<close> raises unless there are four columns.\<close>

definition log_row_of :: "csv_record \<Rightarrow> string option log_row" where
  "log_row_of r = \<lparr>timestamp = r ! 0, id' = r ! 1, product_name = r ! 2, price = r ! 3\<rparr>"

definition toDF :: "csv_frame \<Rightarrow> exn + string option log_row list" where
  "toDF df =
     (if width df \<noteq> 4 then Inl IllegalArgumentException
      else Inr (map log_row_of (recs df)))"

text \<open>\<open>df.withColumn("price", col("price").cast("float"))\<close>.\<close>

definition withColumn_price_float ::
  "spark_session \<Rightarrow> string option log_row list \<Rightarrow> pyfloat option log_row list" where
  "withColumn_price_float session df =
     map (\<lambda>r. \<lparr>timestamp = timestamp r, id' = id' r, product_name = product_name r,
               price = (case price r of None \<Rightarrow> None | Some s \<Rightarrow> cast_float session s)\<rparr>) df"

text \<open>
  \<open>df.groupBy("product_name").agg(_sum("price").alias("total_price"))\<close>: one row per
  distinct product name, null being a name of its own; \<open>sum\<close> adds the non-null prices
  to \<open>0.0\<close> in row order and is null when there is none. Spark leaves the order of the
  groups open; here it is the order of their last rows. Only the order of the rows, and
  so of the lines written for a bucket, depends on it.
\<close>

type_synonym result_row = "string option \<times> pyfloat option"

definition sql_sum :: "pyfloat option list \<Rightarrow> pyfloat option" where
  "sql_sum vs =
     (case List.map_filter (\<lambda>v. v) vs of [] \<Rightarrow> None | w # ws \<Rightarrow> Some (foldl fadd (Finite 0) (w # ws)))"

definition groupBy_sum :: "pyfloat option log_row list \<Rightarrow> result_row list" where
  "groupBy_sum df =
     map (\<lambda>p. (p, sql_sum (map price (filter (\<lambda>r. product_name r = p) df))))
       (remdups (map product_name df))"

section \<open>aggregate\_logs.py: process\_log\_file\<close>

datatype printed = ErrorProcessingFile string exn | FileCreated string

datatype session_state = NotStarted | Running | Stopped

record world =
  files :: fs
  stdout :: "printed list"
  session :: session_state

text \<open>The body of the \<open>try\<close>.\<close>

definition result_df :: "spark_session \<Rightarrow> fs \<Rightarrow> string \<Rightarrow> exn + result_row list" where
  "result_df spark t file_path =
     (case csv spark t file_path of
        Inl e \<Rightarrow> Inl e
      | Inr df \<Rightarrow>
          (case toDF df of
             Inl e \<Rightarrow> Inl e
           | Inr df \<Rightarrow> Inr (groupBy_sum (withColumn_price_float spark df))))"

definition process_log_file ::
  "spark_session \<Rightarrow> string \<Rightarrow> world \<Rightarrow> result_row list option \<times> world" where
  "process_log_file spark file_path w =
     (case result_df spark (files w) file_path of
        Inr df \<Rightarrow> (Some df, w)
      | Inl e \<Rightarrow> (None, w\<lparr>stdout := stdout w @ [ErrorProcessingFile file_path e]\<rparr>))"

section \<open>aggregate\_logs.py: main\<close>

text \<open>
  \<open>hour_results\<close> is a dict: an association list in insertion order, one entry per key.
  A product name may be \<open>None\<close>; adding \<open>None\<close> to a float raises TypeError.
\<close>

type_synonym hour_results = "(string option \<times> pyfloat) list"

text \<open>\<open>for row in result_df.collect(): ...\<close>\<close>

fun add_rows :: "hour_results \<Rightarrow> result_row list \<Rightarrow> exn + hour_results" where
  "add_rows hr [] = Inr hr"
| "add_rows hr ((product, amount) # rows) =
     (let hr1 = (if map_of hr product = None then hr @ [(product, Finite 0)] else hr)
      in case map_of hr1 product of
           None \<Rightarrow> Inl KeyError
         | Some cur \<Rightarrow>
             (case amount of
                None \<Rightarrow> Inl TypeError
              | Some a \<Rightarrow> add_rows (AList.update product (fadd cur a) hr1) rows))"

text \<open>\<open>for file_path in log_files: ...\<close>\<close>

fun process_files ::
  "spark_session \<Rightarrow> string list \<Rightarrow> hour_results \<Rightarrow> world \<Rightarrow> (exn + hour_results) \<times> world" where
  "process_files spark [] hr w = (Inr hr, w)"
| "process_files spark (file_path # log_files) hr w =
     (case process_log_file spark file_path w of
        (None, w1) \<Rightarrow> process_files spark log_files hr w1
      | (Some df, w1) \<Rightarrow>
          (case add_rows hr df of
             Inl e \<Rightarrow> (Inl e, w1)
           | Inr hr1 \<Rightarrow> process_files spark log_files hr1 w1))"

text \<open>The lines written for a bucket, and the \<open>if hour_results:\<close> block that writes them.\<close>

definition output_lines :: "string \<Rightarrow> hour_results \<Rightarrow> string list" where
  "output_lines date_str hr =
     map (\<lambda>(product, total').
            date_str @ ''|'' @ format_str product @ ''|'' @ format_2f total' @ [CHR 0x0A]) hr"

definition write_results ::
  "string \<Rightarrow> string \<Rightarrow> hour_results \<Rightarrow> world \<Rightarrow> exn option \<times> world" where
  "write_results output_path folder hr w =
     (let output_file = path_join output_path (folder @ ''.txt'');
          date_str = format_datetime folder
      in case open_append (files w) output_file (concat (output_lines date_str hr)) of
           Inl e \<Rightarrow> (Some e, w)
         | Inr t \<Rightarrow> (None, w\<lparr>files := t, stdout := stdout w @ [FileCreated output_file]\<rparr>))"

text \<open>The body of \<open>for folder in hour_folders\<close>, and the loop.\<close>

definition process_folder ::
  "spark_session \<Rightarrow> string \<Rightarrow> string \<Rightarrow> string \<Rightarrow> world \<Rightarrow> exn option \<times> world" where
  "process_folder spark input_path output_path folder w =
     (let folder_path = path_join input_path folder;
          log_files = glob_txt (files w) folder_path
      in case process_files spark log_files [] w of
           (Inl e, w1) \<Rightarrow> (Some e, w1)
         | (Inr hr, w1) \<Rightarrow>
             if hr \<noteq> [] then write_results output_path folder hr w1 else (None, w1))"

fun process_folders ::
  "spark_session \<Rightarrow> string \<Rightarrow> string \<Rightarrow> string list \<Rightarrow> world \<Rightarrow> exn option \<times> world" where
  "process_folders spark input_path output_path [] w = (None, w)"
| "process_folders spark input_path output_path (folder # hour_folders) w =
     (case process_folder spark input_path output_path folder w of
        (Some e, w1) \<Rightarrow> (Some e, w1)
      | (None, w1) \<Rightarrow> process_folders spark input_path output_path hour_folders w1)"

text \<open>
  \<open>main\<close> returns the exception that ends the run, if any, and the world it leaves.
  The output directory is made before the session is created; \<open>spark.stop()\<close> is in the
  \<open>finally\<close> of the \<open>try\<close> that holds the scan and the loop.
\<close>

definition input_path :: string where
  "input_path = ''./logs''"

definition output_path :: string where
  "output_path = ''./output''"

definition main :: "spark_session \<Rightarrow> world \<Rightarrow> exn option \<times> world" where
  "main spark w =
     (case makedirs_exist_ok (files w) output_path of
        Inl e \<Rightarrow> (Some e, w)
      | Inr t \<Rightarrow>
          (let w1 = w\<lparr>files := t, session := Running\<rparr>;
               (r, w2) =
                 (case get_hour_folders (files w1) input_path of
                    Inl e \<Rightarrow> (Some e, w1)
                  | Inr hour_folders \<Rightarrow>
                      process_folders spark input_path output_path hour_folders w1)
           in (r, w2\<lparr>session := Stopped\<rparr>)))"

section \<open>A session for plain logs\<close>

text \<open>
  A session to run the program on the example logs. It reads a path that is a regular
  file: the records are the non-empty lines, a line ending at a line feed, and the fields
  are split at \<open>|\<close>. It casts a price written as a decimal numeral
  \<open>[-]digits[.digits]\<close>, rounded to binary32, and gives null for every other string.
  On the example logs this is what Spark does. It is not Spark on every input: Spark also
  reads the files of a directory, skips a file whose name starts with \<open>_\<close> or \<open>.\<close>,
  takes a carriage return as the end of a line, reads quotes and escapes, and casts
  further spellings of a number (a leading \<open>+\<close>, no digit before the point, an exponent,
  a suffix \<open>f\<close> or \<open>d\<close>, \<open>NaN\<close>, \<open>Infinity\<close>, blanks around it). The example logs have
  none of these, and the theorems on the program are over every session.
\<close>

fun split_on :: "char \<Rightarrow> string \<Rightarrow> string list" where
  "split_on c [] = [[]]"
| "split_on c (x # xs) =
     (let r = split_on c xs in if x = c then [] # r else (x # hd r) # tl r)"

definition plain_read_csv :: "fs \<Rightarrow> string \<Rightarrow> exn + csv_record list" where
  "plain_read_csv t p =
     (case map_of t p of
        Some (File c) \<Rightarrow>
          Inr (map (\<lambda>l. map (\<lambda>f. if f = [] then None else Some f) (split_on (CHR ''|'') l))
                 (filter (\<lambda>l. l \<noteq> []) (split_on (CHR 0x0A) c)))
      | _ \<Rightarrow> Inl AnalysisException)"

definition digits_value :: "string \<Rightarrow> int" where
  "digits_value ds = foldl (\<lambda>n c. 10 * n + (of_char c - 48)) 0 ds"

definition plain_cast_float :: "string \<Rightarrow> pyfloat option" where
  "plain_cast_float s =
     (let neg = (s \<noteq> [] \<and> hd s = CHR ''-'');
          body = (if neg then tl s else s);
          ip = takeWhile (\<lambda>c. c \<noteq> CHR ''.'') body;
          fp = drop (length ip + 1) body
      in if ip \<noteq> [] \<and> list_all decimal_digit ip \<and> list_all decimal_digit fp
         then (let q = of_int (digits_value (ip @ fp)) / 10 ^ length fp
               in Some (if neg then (if q = 0 then NegZero else round_single (- q))
                        else round_single q))
         else None)"

definition plain_session :: spark_session where
  "plain_session = \<lparr>read_csv = plain_read_csv, cast_float = plain_cast_float\<rparr>"

section \<open>Example logs\<close>

text \<open>
  One bucket with one file of two well-formed lines; the same tree after a first run;
  and a working directory with no \<open>./logs\<close>.
\<close>

definition widget_world :: world where
  "widget_world =
     \<lparr>files =
        [(''./logs'', Dir), (''./logs/2024112314'', Dir),
         (''./logs/2024112314/a.txt'',
          File ''2024-11-23T14:00:00|1|Widget|10.50\<newline>2024-11-23T14:05:00|2|Widget|4.50\<newline>'')],
      stdout = [], session = NotStarted\<rparr>"

definition widget_world_after :: world where
  "widget_world_after =
     \<lparr>files =
        [(''./logs'', Dir), (''./logs/2024112314'', Dir),
         (''./logs/2024112314/a.txt'',
          File ''2024-11-23T14:00:00|1|Widget|10.50\<newline>2024-11-23T14:05:00|2|Widget|4.50\<newline>''),
         (''./output'', Dir),
         (''./output/2024112314.txt'', File ''2024/11/23 14|Widget|15.00\<newline>'')],
      stdout = [], session = NotStarted\<rparr>"

definition empty_world :: world where
  "empty_world = \<lparr>files = [], stdout = [], session = NotStarted\<rparr>"

text \<open>
  Two buckets where the output path of the first is taken by a directory; a bucket with
  no \<open>.txt\<close> file and one with a file of lines that are no records; a bucket whose
  file has a price that is no number and a line of five fields.
\<close>

definition blocked_output_world :: world where
  "blocked_output_world =
     \<lparr>files =
        [(''./logs'', Dir), (''./logs/2024112314'', Dir),
         (''./logs/2024112314/a.txt'', File ''2024-11-23T14:00:00|1|Widget|10.50\<newline>''),
         (''./logs/2024112315'', Dir),
         (''./logs/2024112315/b.txt'', File ''2024-11-23T15:00:00|2|Gadget|3.00\<newline>''),
         (''./output'', Dir), (''./output/2024112314.txt'', Dir)],
      stdout = [], session = NotStarted\<rparr>"

definition garbage_bucket_world :: world where
  "garbage_bucket_world =
     \<lparr>files =
        [(''./logs'', Dir), (''./logs/2024112314'', Dir),
         (''./logs/2024112314/notes.md'', File ''no logs this hour\<newline>''),
         (''./logs/2024112315'', Dir),
         (''./logs/2024112315/b.txt'', File ''garbage\<newline>more garbage\<newline>''),
         (''./output'', Dir)],
      stdout = [], session = NotStarted\<rparr>"

definition malformed_lines_world :: world where
  "malformed_lines_world =
     \<lparr>files =
        [(''./logs'', Dir), (''./logs/2024112314'', Dir),
         (''./logs/2024112314/a.txt'',
          File ''2024-11-23T14:00:00|1|Widget|abc\<newline>2024-11-23T14:05:00|2|Widget|4.50|extra\<newline>'')],
      stdout = [], session = NotStarted\<rparr>"

text \<open>A bucket whose file has a price beyond the range of binary32.\<close>

definition huge_price_world :: world where
  "huge_price_world =
     \<lparr>files =
        [(''./logs'', Dir), (''./logs/2024112314'', Dir),
         (''./logs/2024112314/a.txt'',
          File ''2024-11-23T14:00:00|1|Widget|1000000000000000000000000000000000000000\<newline>'')],
      stdout = [], session = NotStarted\<rparr>"





text \<open>
  Three buckets: a file that is no log beside a well-formed one, a file that is no log
  alone, and a well-formed file. And three buckets of well-formed files where the output
  path of the second is taken by a directory.
\<close>

definition three_bucket_world :: world where
  "three_bucket_world =
     \<lparr>files =
        [(''./logs'', Dir), (''./logs/2024112313'', Dir),
         (''./logs/2024112313/a.txt'', File ''garbage\<newline>''),
         (''./logs/2024112313/b.txt'', File ''2024-11-23T13:00:00|1|Widget|10.50\<newline>''),
         (''./logs/2024112314'', Dir),
         (''./logs/2024112314/a.txt'', File ''garbage\<newline>''),
         (''./logs/2024112315'', Dir),
         (''./logs/2024112315/c.txt'', File ''2024-11-23T15:00:00|2|Gadget|3.00\<newline>'')],
      stdout = [], session = NotStarted\<rparr>"

definition late_block_world :: world where
  "late_block_world =
     \<lparr>files =
        [(''./logs'', Dir), (''./logs/2024112313'', Dir),
         (''./logs/2024112313/a.txt'', File ''2024-11-23T13:00:00|1|Widget|10.50\<newline>''),
         (''./logs/2024112314'', Dir),
         (''./logs/2024112314/a.txt'', File ''2024-11-23T14:00:00|2|Widget|4.50\<newline>''),
         (''./logs/2024112315'', Dir),
         (''./logs/2024112315/b.txt'', File ''2024-11-23T15:00:00|3|Gadget|3.00\<newline>''),
         (''./output'', Dir), (''./output/2024112314.txt'', Dir)],
      stdout = [], session = NotStarted\<rparr>"

section \<open>Properties of format\_datetime\<close>

lemma slice_take_drop: "slice s i j = take (j - i) (drop i s)"
  unfolding slice_def Let_def
  by (auto simp: list_eq_iff_nth_eq min_def)

text \<open>
  Claim C9. \<open>format_datetime\<close> is a total function of its string: for every \<open>s\<close> it
  returns \<open>s[0:4] + "/" + s[4:6] + "/" + s[6:8] + " " + s[8:10]\<close>. Nothing checks the
  length or the characters of \<open>s\<close>: the result has the three separators and the first
  ten characters of \<open>s\<close> at most, and a field that \<open>s\<close> is too short for is cut or empty.
\<close>

theorem format_datetime_total:
  "format_datetime s =
     take 4 s @ ''/'' @ take 2 (drop 4 s) @ ''/'' @ take 2 (drop 6 s) @ '' '' @ take 2 (drop 8 s)
   \<and> length (format_datetime s) = min (length s) 10 + 3
   \<and> length (slice s 0 4) = min 4 (length s)
   \<and> length (slice s 4 6) = min 2 (length s - 4)
   \<and> length (slice s 6 8) = min 2 (length s - 6)
   \<and> length (slice s 8 10) = min 2 (length s - 8)"
  by (auto simp add: format_datetime_def slice_take_drop min_def)

theorem format_datetime_short_input:
  "format_datetime ''20241'' = ''2024/1/ '' \<and> length (format_datetime ''20241'') = 8
   \<and> format_datetime [] = ''// ''"
  using format_datetime_total [of "''20241''"] format_datetime_total [of "[]"]
  by simp

section \<open>Properties of get\_hour\_folders\<close>

lemma ascii_isdigit: "of_char c < (128::nat) \<Longrightarrow> isdigit_char c = decimal_digit c"
  by (auto simp: isdigit_char_def decimal_digit_def Let_def)

lemma ascii_isdigit_all:
  "list_all (\<lambda>c. of_char c < (128::nat)) d \<Longrightarrow> list_all isdigit_char d = list_all decimal_digit d"
  by (induction d) (auto simp: ascii_isdigit)

text \<open>
  When the root can be listed, the scanner returns the entries that are 10 characters
  long and made of characters \<open>str.isdigit\<close> accepts, in listing order, and never an
  error; no matching entry gives the empty list. For an entry of ASCII characters the
  test is the one of the naming convention: 10 characters, each a decimal digit 0-9.
\<close>

lemma get_hour_folders_filter:
  assumes "listdir t base_path = Inr ds"
  shows "\<exists>hs. get_hour_folders t base_path = Inr hs
     \<and> hs = filter (\<lambda>d. length d = 10 \<and> list_all isdigit_char d) ds
     \<and> (\<forall>d \<in> set ds. list_all (\<lambda>c. of_char c < (128::nat)) d \<longrightarrow>
           (d \<in> set hs \<longleftrightarrow> length d = 10 \<and> list_all decimal_digit d))
     \<and> ((\<forall>d \<in> set ds. \<not> (length d = 10 \<and> list_all isdigit_char d)) \<longrightarrow> hs = [])"
proof -
  have eq: "(\<lambda>d. length d = 10 \<and> isdigit d) = (\<lambda>d. length d = 10 \<and> list_all isdigit_char d)"
    by (auto simp: isdigit_def fun_eq_iff)
  show ?thesis
    using assms by (auto simp: get_hour_folders_def eq ascii_isdigit_all filter_empty_conv)
qed

lemma get_hour_folders_example:
  "listdir [(''./logs'', Dir), (''./logs/2024112314'', Dir), (''./logs/README'', File []),
            (''./logs/20241123'', Dir)] ''./logs''
     = Inr [''2024112314'', ''README'', ''20241123'']
   \<and> get_hour_folders [(''./logs'', Dir), (''./logs/2024112314'', Dir), (''./logs/README'', File []),
            (''./logs/20241123'', Dir)] ''./logs''
     = Inr [''2024112314'']"
proof -
  have l: "listdir [(''./logs'', Dir), (''./logs/2024112314'', Dir), (''./logs/README'', File []),
            (''./logs/20241123'', Dir)] ''./logs''
     = Inr [''2024112314'', ''README'', ''20241123'']"
    by (simp add: listdir_def children_def child_name_def List.map_filter_def)
  show ?thesis
    using get_hour_folders_filter [OF l] l
    by (auto simp: isdigit_char_def)
qed

text \<open>
  Claim C5 fails on the code. The comment of \<open>get_hour_folders\<close> says that folder names
  are in the format YYYYMMDDHH, and the test \<open>d.isdigit()\<close> lets through characters
  that are no decimal digits: in a root that can be listed, a directory named by ten
  superscript twos (code point 178) is returned as an hour bucket, and none of its
  characters is one of 0-9.
\<close>

theorem get_hour_folders_superscript:
  "listdir [(''./logs'', Dir), (''./logs/'' @ replicate 10 (CHR 0xB2), Dir)] ''./logs''
     = Inr [replicate 10 (CHR 0xB2)]
   \<and> get_hour_folders [(''./logs'', Dir), (''./logs/'' @ replicate 10 (CHR 0xB2), Dir)] ''./logs''
     = Inr [replicate 10 (CHR 0xB2)]
   \<and> length (replicate 10 (CHR 0xB2)) = 10
   \<and> list_all (\<lambda>c. \<not> decimal_digit c) (replicate 10 (CHR 0xB2))"
  by (simp add: get_hour_folders_def listdir_def children_def child_name_def List.map_filter_def
      isdigit_def isdigit_char_def decimal_digit_def numeral_eq_Suc)

section \<open>What a run leaves in the file system\<close>

lemma process_log_file_files: "files (snd (process_log_file spark p w)) = files w"
  by (simp add: process_log_file_def split: sum.splits)

lemma process_files_files: "files (snd (process_files spark ps hr w)) = files w"
proof (induction ps arbitrary: hr w)
  case Nil
  then show ?case by simp
next
  case (Cons p ps)
  have f: "files (snd (process_log_file spark p w)) = files w"
    by (rule process_log_file_files)
  show ?case
    using Cons.IH f
    by (auto split: prod.splits option.splits sum.splits)
qed

lemma makedirs_is_dir:
  "makedirs_exist_ok t p = Inr t' \<Longrightarrow> map_of t' p = Some Dir"
  by (auto simp: makedirs_exist_ok_def map_add_def split: option.splits node.splits)

lemma makedirs_frame:
  "makedirs_exist_ok t p = Inr t' \<Longrightarrow> q \<noteq> p \<Longrightarrow> map_of t' q = map_of t q"
  by (auto simp: makedirs_exist_ok_def map_of_append map_add_def split: option.splits node.splits)

lemma open_append_keeps_dir:
  "open_append t p txt = Inr t' \<Longrightarrow> map_of t q = Some Dir \<Longrightarrow> map_of t' q = Some Dir"
  by (auto simp: open_append_def update_conv map_add_def split: option.splits node.splits if_splits)

lemma write_results_keeps_dir:
  "map_of (files w) q = Some Dir \<Longrightarrow>
   map_of (files (snd (write_results out folder hr w))) q = Some Dir"
  by (auto simp: write_results_def Let_def open_append_keeps_dir split: sum.splits)

lemma process_folder_keeps_dir:
  assumes "map_of (files w) q = Some Dir"
  shows "map_of (files (snd (process_folder spark inp out folder w))) q = Some Dir"
proof -
  have "files (snd (process_files spark (glob_txt (files w) (path_join inp folder)) [] w)) = files w"
    by (rule process_files_files)
  then show ?thesis
    using assms
    by (auto simp: process_folder_def Let_def write_results_keeps_dir split: prod.splits sum.splits)
qed

lemma process_folders_keeps_dir:
  "map_of (files w) q = Some Dir \<Longrightarrow>
   map_of (files (snd (process_folders spark inp out folders w))) q = Some Dir"
proof (induction folders arbitrary: w)
  case Nil
  then show ?case by simp
next
  case (Cons f fs)
  from process_folder_keeps_dir [OF Cons.prems, of spark inp out f]
  show ?case
    using Cons.IH
    by (auto split: prod.splits option.splits)
qed

lemma dirname_output_file:
  assumes "CHR ''/'' \<notin> set folder"
  shows "dirname (path_join output_path (folder @ ''.txt'')) = output_path"
proof -
  have j: "path_join output_path (folder @ ''.txt'') = ''./output/'' @ folder @ ''.txt''"
    using assms by (cases folder) (auto simp: path_join_def output_path_def)
  have d: "dropWhile (\<lambda>c. c \<noteq> CHR ''/'') (rev (folder @ ''.txt'') @ ''/tuptuo/.'') = ''/tuptuo/.''"
    using assms by (subst dropWhile_append2) auto
  show ?thesis
    unfolding j dirname_def using d by (simp add: output_path_def)
qed

lemma write_results_not_missing_dir:
  assumes "map_of (files w) output_path = Some Dir" and "CHR ''/'' \<notin> set folder"
  shows "fst (write_results output_path folder hr w) \<noteq> Some FileNotFoundError
       \<and> fst (write_results output_path folder hr w) \<noteq> Some NotADirectoryError"
  using assms dirname_output_file [OF assms(2)]
  by (auto simp: write_results_def Let_def open_append_def split: option.splits node.splits sum.splits)

text \<open>The program run on the example logs.\<close>

lemma run_widget:
  "main plain_session widget_world =
     (None, widget_world_after\<lparr>stdout := [FileCreated ''./output/2024112314.txt''],
                               session := Stopped\<rparr>)"
  by code_simp

lemma run_widget_again:
  "main plain_session widget_world_after =
     (None,
      \<lparr>files =
         [(''./logs'', Dir), (''./logs/2024112314'', Dir),
          (''./logs/2024112314/a.txt'',
           File ''2024-11-23T14:00:00|1|Widget|10.50\<newline>2024-11-23T14:05:00|2|Widget|4.50\<newline>''),
          (''./output'', Dir),
          (''./output/2024112314.txt'',
           File ''2024/11/23 14|Widget|15.00\<newline>2024/11/23 14|Widget|15.00\<newline>'')],
       stdout = [FileCreated ''./output/2024112314.txt''],
       session = Stopped\<rparr>)"
  by code_simp

text \<open>
  Claim C10. When listing the input root raises, the run ends with that exception before
  any bucket is processed: nothing is printed, the file system is the one left by
  \<open>os.makedirs\<close>, which differs from the initial one at the output directory at most, and
  the session is stopped.
\<close>

theorem discovery_failure_atomic:
  assumes mk: "makedirs_exist_ok (files w) output_path = Inr t"
    and ls: "listdir t input_path = Inl e"
  shows "main spark w = (Some e, w\<lparr>files := t, session := Stopped\<rparr>)
     \<and> (\<forall>p. p \<noteq> output_path \<longrightarrow> map_of t p = map_of (files w) p)"
  using mk ls makedirs_frame [OF mk]
  by (simp add: main_def get_hour_folders_def)

theorem discovery_failure_atomic_witness:
  "makedirs_exist_ok (files empty_world) output_path = Inr [(''./output'', Dir)]
   \<and> listdir [(''./output'', Dir)] input_path = Inl FileNotFoundError
   \<and> main plain_session empty_world =
       (Some FileNotFoundError,
        \<lparr>files = [(''./output'', Dir)], stdout = [], session = Stopped\<rparr>)"
proof -
  have mk: "makedirs_exist_ok (files empty_world) output_path = Inr [(''./output'', Dir)]"
    by (simp add: makedirs_exist_ok_def empty_world_def output_path_def)
  have ls: "listdir [(''./output'', Dir)] input_path = Inl FileNotFoundError"
    by (simp add: listdir_def input_path_def)
  show ?thesis
    using discovery_failure_atomic [OF mk ls, of plain_session] mk ls
    by (simp add: empty_world_def)
qed

text \<open>
  Claim C8. \<open>os.makedirs(output_path, exist_ok=True)\<close> is the first step: when it raises,
  the run ends there with the world untouched; an output directory that is there already
  is no error and is left as it is; and once it has succeeded the output directory is in
  the file system after any number of buckets and at the end of the run. Reading the
  files of a bucket leaves the file system alone, so the write of every bucket finds the
  directory: it never fails for want of it.
\<close>

theorem output_directory_made_first:
  "(map_of (files w) output_path = Some Dir \<longrightarrow>
      makedirs_exist_ok (files w) output_path = Inr (files w))
   \<and> (\<forall>e. makedirs_exist_ok (files w) output_path = Inl e \<longrightarrow> main spark w = (Some e, w))
   \<and> (\<forall>t. makedirs_exist_ok (files w) output_path = Inr t \<longrightarrow>
         map_of t output_path = Some Dir
         \<and> (\<forall>folders. map_of (files (snd (process_folders spark input_path output_path folders
                 (w\<lparr>files := t, session := Running\<rparr>)))) output_path = Some Dir)
         \<and> map_of (files (snd (main spark w))) output_path = Some Dir)
   \<and> (\<forall>log_files hr (w1::world). files (snd (process_files spark log_files hr w1)) = files w1)
   \<and> (\<forall>folder hr (w1::world).
         map_of (files w1) output_path = Some Dir \<and> CHR ''/'' \<notin> set folder \<longrightarrow>
         fst (write_results output_path folder hr w1) \<noteq> Some FileNotFoundError
         \<and> fst (write_results output_path folder hr w1) \<noteq> Some NotADirectoryError)"
proof (intro conjI allI impI)
  show "makedirs_exist_ok (files w) output_path = Inr (files w)"
    if "map_of (files w) output_path = Some Dir"
    using that by (simp add: makedirs_exist_ok_def)
  show "main spark w = (Some e, w)" if "makedirs_exist_ok (files w) output_path = Inl e" for e
    using that by (simp add: main_def)
  fix t assume mk: "makedirs_exist_ok (files w) output_path = Inr t"
  show d: "map_of t output_path = Some Dir"
    using mk by (rule makedirs_is_dir)
  show k: "map_of (files (snd (process_folders spark input_path output_path folders
                 (w\<lparr>files := t, session := Running\<rparr>)))) output_path = Some Dir" for folders
    using d by (intro process_folders_keeps_dir) simp
  show "map_of (files (snd (main spark w))) output_path = Some Dir"
  proof (cases "get_hour_folders t input_path")
    case (Inl e)
    then show ?thesis using mk d by (simp add: main_def)
  next
    case (Inr hs)
    then show ?thesis using mk k [of hs] by (auto simp add: main_def split: prod.splits)
  qed
next
  show "files (snd (process_files spark log_files hr w1)) = files w1"
    for log_files hr and w1 :: world
    by (rule process_files_files)
next
  fix folder hr and w1 :: world
  assume a: "map_of (files w1) output_path = Some Dir \<and> CHR ''/'' \<notin> set folder"
  then show "fst (write_results output_path folder hr w1) \<noteq> Some FileNotFoundError"
    using write_results_not_missing_dir by blast
  from a show "fst (write_results output_path folder hr w1) \<noteq> Some NotADirectoryError"
    using write_results_not_missing_dir by blast
qed

theorem output_directory_made_first_witness:
  "map_of (files widget_world_after) output_path = Some Dir
   \<and> makedirs_exist_ok (files widget_world_after) output_path = Inr (files widget_world_after)
   \<and> fst (main plain_session widget_world_after) = None
   \<and> map_of (files (snd (main plain_session widget_world_after))) output_path = Some Dir
   \<and> map_of (files widget_world) output_path = None
   \<and> map_of (files (snd (main plain_session widget_world))) output_path = Some Dir"
proof -
  have d: "map_of (files widget_world_after) output_path = Some Dir"
    by (simp add: widget_world_after_def output_path_def)
  have n: "map_of (files widget_world) output_path = None"
    by (simp add: widget_world_def output_path_def)
  have m: "makedirs_exist_ok (files widget_world) output_path
             = Inr (files widget_world @ [(output_path, Dir)])"
    using n by (simp add: makedirs_exist_ok_def)
  show ?thesis
    using output_directory_made_first [of widget_world_after plain_session]
      output_directory_made_first [of widget_world plain_session] d n m run_widget_again
    by simp
qed

text \<open>
  Claim C1 fails on the code: the output file is opened in append mode. A second run over
  the unchanged logs puts the lines of the bucket after those of the first run.
\<close>

theorem rerun_appends_output:
  "map_of (files (snd (main plain_session widget_world))) ''./output/2024112314.txt''
     = Some (File ''2024/11/23 14|Widget|15.00\<newline>'')
   \<and> files (snd (main plain_session widget_world)) = files widget_world_after
   \<and> map_of (files (snd (main plain_session widget_world_after))) ''./output/2024112314.txt''
     = Some (File ''2024/11/23 14|Widget|15.00\<newline>2024/11/23 14|Widget|15.00\<newline>'')"
  unfolding run_widget run_widget_again
  by (simp add: widget_world_after_def)

section \<open>Files that fail and buckets with nothing to write\<close>

lemma process_files_skip:
  "result_df spark (files w) f = Inl e \<Longrightarrow>
   process_files spark (f # ps) hr w =
     process_files spark ps hr (w\<lparr>stdout := stdout w @ [ErrorProcessingFile f e]\<rparr>)"
  by (simp add: process_log_file_def)

lemma process_files_take:
  "result_df spark (files w) f = Inr df \<Longrightarrow>
   process_files spark (f # ps) hr w =
     (case add_rows hr df of Inl e \<Rightarrow> (Inl e, w) | Inr hr1 \<Rightarrow> process_files spark ps hr1 w)"
  by (simp add: process_log_file_def)

lemma process_files_fst_cong:
  "files w = files w2 \<Longrightarrow>
   fst (process_files spark ps hr w) = fst (process_files spark ps hr w2)"
proof (induction ps arbitrary: hr w w2)
  case Nil
  then show ?case by simp
next
  case (Cons f ps)
  show ?case
  proof (cases "result_df spark (files w) f")
    case (Inl e)
    have "fst (process_files spark ps hr (w\<lparr>stdout := stdout w @ [ErrorProcessingFile f e]\<rparr>))
        = fst (process_files spark ps hr (w2\<lparr>stdout := stdout w2 @ [ErrorProcessingFile f e]\<rparr>))"
      by (rule Cons.IH) (simp add: Cons.prems)
    then show ?thesis
      using Inl Cons.prems by (simp add: process_log_file_def)
  next
    case (Inr df)
    then show ?thesis
      using Cons.IH [OF Cons.prems] Cons.prems
      by (simp add: process_log_file_def split: sum.splits)
  qed
qed

lemma process_files_filter:
  "fst (process_files spark ps hr w)
     = fst (process_files spark (filter (\<lambda>f. \<not> isl (result_df spark (files w) f)) ps) hr w)"
proof (induction ps arbitrary: hr w)
  case Nil
  then show ?case by simp
next
  case (Cons f ps)
  show ?case
  proof (cases "result_df spark (files w) f")
    case (Inl e)
    have "fst (process_files spark ps hr (w\<lparr>stdout := stdout w @ [ErrorProcessingFile f e]\<rparr>))
        = fst (process_files spark ps hr w)"
      by (rule process_files_fst_cong) simp
    then show ?thesis
      using Inl Cons.IH [of hr w] by (simp add: process_log_file_def)
  next
    case (Inr df)
    then show ?thesis
      using Cons.IH by (simp add: process_log_file_def split: sum.splits)
  qed
qed

lemma process_files_all_fail:
  "\<forall>f \<in> set ps. isl (result_df spark (files w) f) \<Longrightarrow>
   process_files spark ps hr w =
     (Inr hr, w\<lparr>stdout := stdout w
        @ map (\<lambda>f. ErrorProcessingFile f (projl (result_df spark (files w) f))) ps\<rparr>)"
proof (induction ps arbitrary: w)
  case Nil
  then show ?case by simp
next
  case (Cons f ps)
  from Cons.prems obtain e where e: "result_df spark (files w) f = Inl e"
    by (cases "result_df spark (files w) f") auto
  let ?w = "w\<lparr>stdout := stdout w @ [ErrorProcessingFile f e]\<rparr>"
  have "\<forall>g \<in> set ps. isl (result_df spark (files ?w) g)"
    using Cons.prems by simp
  from Cons.IH [OF this] show ?case
    using e by (simp add: process_log_file_def)
qed

lemma result_df_wrong_width:
  assumes "read_csv spark t f = Inr rs" and "\<forall>r \<in> set rs. length r \<noteq> 4"
  shows "result_df spark t f = Inl IllegalArgumentException"
  using assms
  by (cases rs) (auto simp: result_df_def csv_def toDF_def Let_def)

lemma result_df_unreadable:
  "read_csv spark t f = Inl e \<Longrightarrow> result_df spark t f = Inl e"
  by (simp add: result_df_def csv_def)

lemma glob_garbage_14:
  "glob_txt (files garbage_bucket_world) (path_join input_path ''2024112314'') = []"
  by code_simp

lemma glob_garbage_15:
  "glob_txt (files garbage_bucket_world) (path_join input_path ''2024112315'')
     = [''./logs/2024112315/b.txt'']"
  by code_simp

lemma result_df_garbage:
  "result_df plain_session (files garbage_bucket_world) ''./logs/2024112315/b.txt''
     = Inl IllegalArgumentException"
  by code_simp

text \<open>
  Claim C4, as the code has it. A bucket with no file matching \<open>*.txt\<close>, or whose every
  file makes \<open>process_log_file\<close> fail, is processed with no exception and no write: the
  file system is unchanged and one message per failing file is printed. A file fails when
  its path cannot be read, or when none of its records has four fields.
\<close>

theorem empty_bucket_writes_nothing:
  assumes "\<forall>f \<in> set (glob_txt (files w) (path_join inp folder)).
             isl (result_df spark (files w) f)"
  shows "process_folder spark inp out folder w =
           (None, w\<lparr>stdout := stdout w
              @ map (\<lambda>f. ErrorProcessingFile f (projl (result_df spark (files w) f)))
                  (glob_txt (files w) (path_join inp folder))\<rparr>)
       \<and> (\<forall>f e. read_csv spark (files w) f = Inl e \<longrightarrow> result_df spark (files w) f = Inl e)
       \<and> (\<forall>f rs. read_csv spark (files w) f = Inr rs \<and> (\<forall>r \<in> set rs. length r \<noteq> 4) \<longrightarrow>
             result_df spark (files w) f = Inl IllegalArgumentException)"
  using process_files_all_fail [OF assms, of "[]"] result_df_wrong_width result_df_unreadable
  by (auto simp: process_folder_def Let_def)

theorem empty_bucket_writes_nothing_witness:
  "process_folder plain_session input_path output_path ''2024112314'' garbage_bucket_world
     = (None, garbage_bucket_world)
   \<and> process_folder plain_session input_path output_path ''2024112315'' garbage_bucket_world
     = (None, garbage_bucket_world\<lparr>stdout :=
          [ErrorProcessingFile ''./logs/2024112315/b.txt'' IllegalArgumentException]\<rparr>)"
proof -
  have a: "\<forall>f \<in> set (glob_txt (files garbage_bucket_world) (path_join input_path ''2024112314'')).
             isl (result_df plain_session (files garbage_bucket_world) f)"
    by (simp add: glob_garbage_14)
  have b: "\<forall>f \<in> set (glob_txt (files garbage_bucket_world) (path_join input_path ''2024112315'')).
             isl (result_df plain_session (files garbage_bucket_world) f)"
    by (simp add: glob_garbage_15 result_df_garbage)
  have s: "stdout garbage_bucket_world = []"
    by (simp add: garbage_bucket_world_def)
  show ?thesis
    using empty_bucket_writes_nothing [OF a, of output_path, THEN conjunct1]
      empty_bucket_writes_nothing [OF b, of output_path, THEN conjunct1]
    by (simp add: glob_garbage_14 glob_garbage_15 result_df_garbage s)
qed

text \<open>
  The claim as stated fails on a bucket whose file holds malformed lines only: one has a
  price that is no number, one has five fields. The reader cuts the long record to four
  fields, its price is summed, and the output file of the bucket is written.
\<close>

theorem malformed_lines_are_written:
  "plain_read_csv (files malformed_lines_world) ''./logs/2024112314/a.txt'' =
     Inr [[Some ''2024-11-23T14:00:00'', Some ''1'', Some ''Widget'', Some ''abc''],
          [Some ''2024-11-23T14:05:00'', Some ''2'', Some ''Widget'', Some ''4.50'', Some ''extra'']]
   \<and> plain_cast_float ''abc'' = None
   \<and> main plain_session malformed_lines_world =
       (None,
        \<lparr>files = files malformed_lines_world
           @ [(''./output'', Dir),
              (''./output/2024112314.txt'', File ''2024/11/23 14|Widget|4.50\<newline>'')],
         stdout = [FileCreated ''./output/2024112314.txt''],
         session = Stopped\<rparr>)"
  by code_simp

lemma process_folders_append:
  "process_folders spark inp out (pre @ rest) w =
     (case process_folders spark inp out pre w of
        (Some e, w1) \<Rightarrow> (Some e, w1)
      | (None, w1) \<Rightarrow> process_folders spark inp out rest w1)"
  by (induction pre arbitrary: w) (auto split: prod.splits option.splits)

lemma process_folder_all_fail:
  assumes "\<forall>f \<in> set (glob_txt (files w) (path_join inp folder)).
             isl (result_df spark (files w) f)"
  shows "process_folder spark inp out folder w =
           (None, w\<lparr>stdout := stdout w
              @ map (\<lambda>f. ErrorProcessingFile f (projl (result_df spark (files w) f)))
                  (glob_txt (files w) (path_join inp folder))\<rparr>)"
  using process_files_all_fail [OF assms, of "[]"]
  by (simp add: process_folder_def Let_def)

lemma main_process_folders:
  assumes "makedirs_exist_ok (files w) output_path = Inr t"
    and "get_hour_folders t input_path = Inr hs"
  shows "main spark w =
           (fst (process_folders spark input_path output_path hs (w\<lparr>files := t, session := Running\<rparr>)),
            (snd (process_folders spark input_path output_path hs (w\<lparr>files := t, session := Running\<rparr>)))
              \<lparr>session := Stopped\<rparr>)"
  using assms by (simp add: main_def split: prod.splits)

lemma process_folder_write_fails:
  assumes "process_files spark (glob_txt (files w) (path_join inp folder)) [] w = (Inr hr, w1)"
    and "hr \<noteq> []"
    and "open_append (files w1) (path_join out (folder @ ''.txt''))
           (concat (output_lines (format_datetime folder) hr)) = Inl e"
  shows "process_folder spark inp out folder w = (Some e, w1)"
  using assms by (simp add: process_folder_def write_results_def Let_def)

lemma run_three_buckets:
  "main plain_session three_bucket_world =
     (None,
      \<lparr>files = files three_bucket_world
         @ [(''./output'', Dir),
            (''./output/2024112313.txt'', File ''2024/11/23 13|Widget|10.50\<newline>''),
            (''./output/2024112315.txt'', File ''2024/11/23 15|Gadget|3.00\<newline>'')],
       stdout = [ErrorProcessingFile ''./logs/2024112313/a.txt'' IllegalArgumentException,
                 FileCreated ''./output/2024112313.txt'',
                 ErrorProcessingFile ''./logs/2024112314/a.txt'' IllegalArgumentException,
                 FileCreated ''./output/2024112315.txt''],
       session = Stopped\<rparr>)"
  by code_simp

lemma run_late_block:
  "main plain_session late_block_world =
     (Some IsADirectoryError,
      \<lparr>files = files late_block_world
         @ [(''./output/2024112313.txt'', File ''2024/11/23 13|Widget|10.50\<newline>'')],
       stdout = [FileCreated ''./output/2024112313.txt''],
       session = Stopped\<rparr>)"
  by code_simp

lemma result_df_three_a:
  "result_df plain_session (files three_bucket_world) ''./logs/2024112313/a.txt''
     = Inl IllegalArgumentException"
  by code_simp

lemma folders_late_block:
  "get_hour_folders (files late_block_world) input_path
     = Inr [''2024112313'', ''2024112314'', ''2024112315'']"
  by code_simp

text \<open>
  Claim C7, as the code has it. An exception raised while \<open>process_log_file\<close> builds the
  DataFrame of a file is caught: the file is reported and skipped, it adds nothing to the
  totals, and the files after it are processed. A bucket that ends with no exception,
  also one whose every file failed, is followed by the buckets after it, whatever its
  place in the list. The run ends with the exception when \<open>os.makedirs\<close> raises, when the
  input root cannot be listed, and when the output file of a bucket cannot be opened; an
  exception that ends a bucket ends the loop there, whatever the place of the bucket, so
  the buckets after it are not processed, and \<open>main\<close> returns it with the session
  stopped.
\<close>

theorem file_failures_are_skipped:
  "(\<forall>e. result_df spark (files w) f = Inl e \<longrightarrow>
       process_log_file spark f w = (None, w\<lparr>stdout := stdout w @ [ErrorProcessingFile f e]\<rparr>)
       \<and> process_files spark (f # ps) hr w =
           process_files spark ps hr (w\<lparr>stdout := stdout w @ [ErrorProcessingFile f e]\<rparr>))
   \<and> fst (process_files spark ps hr w)
       = fst (process_files spark (filter (\<lambda>f. \<not> isl (result_df spark (files w) f)) ps) hr w)
   \<and> (\<forall>e. makedirs_exist_ok (files w) output_path = Inl e \<longrightarrow> main spark w = (Some e, w))
   \<and> (\<forall>t e. makedirs_exist_ok (files w) output_path = Inr t
          \<and> get_hour_folders t input_path = Inl e \<longrightarrow>
          main spark w = (Some e, w\<lparr>files := t, session := Stopped\<rparr>))
   \<and> (\<forall>e. open_append (files w) (path_join out (folder @ ''.txt''))
             (concat (output_lines (format_datetime folder) hr)) = Inl e \<longrightarrow>
          write_results out folder hr w = (Some e, w))
   \<and> (\<forall>t e w1 rest. makedirs_exist_ok (files w) output_path = Inr t
          \<and> get_hour_folders t input_path = Inr (folder # rest)
          \<and> process_folder spark input_path output_path folder (w\<lparr>files := t, session := Running\<rparr>)
              = (Some e, w1) \<longrightarrow>
          main spark w = (Some e, w1\<lparr>session := Stopped\<rparr>))
   \<and> (\<forall>w1 rest. process_folder spark inp out folder w = (None, w1) \<longrightarrow>
          process_folders spark inp out (folder # rest) w = process_folders spark inp out rest w1)
   \<and> (\<forall>rest. (\<forall>g \<in> set (glob_txt (files w) (path_join inp folder)).
                  isl (result_df spark (files w) g)) \<longrightarrow>
          process_folders spark inp out (folder # rest) w =
            process_folders spark inp out rest
              (w\<lparr>stdout := stdout w
                 @ map (\<lambda>g. ErrorProcessingFile g (projl (result_df spark (files w) g)))
                     (glob_txt (files w) (path_join inp folder))\<rparr>))
   \<and> (\<forall>pre rest w1. process_folders spark inp out pre w = (None, w1) \<longrightarrow>
          process_folders spark inp out (pre @ rest) w = process_folders spark inp out rest w1)
   \<and> (\<forall>e w1 rest. process_folder spark inp out folder w = (Some e, w1) \<longrightarrow>
          process_folders spark inp out (folder # rest) w = (Some e, w1))
   \<and> (\<forall>pre rest e w1. process_folders spark inp out pre w = (Some e, w1) \<longrightarrow>
          process_folders spark inp out (pre @ rest) w = (Some e, w1))
   \<and> (\<forall>hr1 w1 e. process_files spark (glob_txt (files w) (path_join inp folder)) [] w = (Inr hr1, w1)
          \<and> hr1 \<noteq> []
          \<and> open_append (files w1) (path_join out (folder @ ''.txt''))
               (concat (output_lines (format_datetime folder) hr1)) = Inl e \<longrightarrow>
          process_folder spark inp out folder w = (Some e, w1))
   \<and> (\<forall>t hs. makedirs_exist_ok (files w) output_path = Inr t
          \<and> get_hour_folders t input_path = Inr hs \<longrightarrow>
          main spark w =
            (fst (process_folders spark input_path output_path hs
                    (w\<lparr>files := t, session := Running\<rparr>)),
             (snd (process_folders spark input_path output_path hs
                     (w\<lparr>files := t, session := Running\<rparr>)))\<lparr>session := Stopped\<rparr>))"
proof (intro conjI allI impI)
  fix e assume "result_df spark (files w) f = Inl e"
  then show "process_log_file spark f w
      = (None, w\<lparr>stdout := stdout w @ [ErrorProcessingFile f e]\<rparr>)"
    and "process_files spark (f # ps) hr w =
           process_files spark ps hr (w\<lparr>stdout := stdout w @ [ErrorProcessingFile f e]\<rparr>)"
    by (simp_all add: process_log_file_def)
next
  show "fst (process_files spark ps hr w)
       = fst (process_files spark (filter (\<lambda>f. \<not> isl (result_df spark (files w) f)) ps) hr w)"
    by (rule process_files_filter)
next
  fix e assume "makedirs_exist_ok (files w) output_path = Inl e"
  then show "main spark w = (Some e, w)"
    by (simp add: main_def)
next
  fix t e
  assume "makedirs_exist_ok (files w) output_path = Inr t \<and> get_hour_folders t input_path = Inl e"
  then show "main spark w = (Some e, w\<lparr>files := t, session := Stopped\<rparr>)"
    by (simp add: main_def)
next
  fix e
  assume "open_append (files w) (path_join out (folder @ ''.txt''))
             (concat (output_lines (format_datetime folder) hr)) = Inl e"
  then show "write_results out folder hr w = (Some e, w)"
    by (simp add: write_results_def)
next
  fix t e w1 rest
  assume "makedirs_exist_ok (files w) output_path = Inr t
          \<and> get_hour_folders t input_path = Inr (folder # rest)
          \<and> process_folder spark input_path output_path folder (w\<lparr>files := t, session := Running\<rparr>)
              = (Some e, w1)"
  then show "main spark w = (Some e, w1\<lparr>session := Stopped\<rparr>)"
    by (simp add: main_def)
next
  fix w1 rest
  assume "process_folder spark inp out folder w = (None, w1)"
  then show "process_folders spark inp out (folder # rest) w = process_folders spark inp out rest w1"
    by simp
next
  fix rest
  assume "\<forall>g \<in> set (glob_txt (files w) (path_join inp folder)). isl (result_df spark (files w) g)"
  from process_folder_all_fail [OF this, of out]
  show "process_folders spark inp out (folder # rest) w =
            process_folders spark inp out rest
              (w\<lparr>stdout := stdout w
                 @ map (\<lambda>g. ErrorProcessingFile g (projl (result_df spark (files w) g)))
                     (glob_txt (files w) (path_join inp folder))\<rparr>)"
    by simp
next
  fix pre rest w1
  assume "process_folders spark inp out pre w = (None, w1)"
  then show "process_folders spark inp out (pre @ rest) w = process_folders spark inp out rest w1"
    by (simp add: process_folders_append)
next
  fix e w1 rest
  assume "process_folder spark inp out folder w = (Some e, w1)"
  then show "process_folders spark inp out (folder # rest) w = (Some e, w1)"
    by simp
next
  fix pre rest e w1
  assume "process_folders spark inp out pre w = (Some e, w1)"
  then show "process_folders spark inp out (pre @ rest) w = (Some e, w1)"
    by (simp add: process_folders_append)
next
  fix hr1 w1 e
  assume "process_files spark (glob_txt (files w) (path_join inp folder)) [] w = (Inr hr1, w1)
          \<and> hr1 \<noteq> []
          \<and> open_append (files w1) (path_join out (folder @ ''.txt''))
               (concat (output_lines (format_datetime folder) hr1)) = Inl e"
  then show "process_folder spark inp out folder w = (Some e, w1)"
    using process_folder_write_fails by blast
next
  fix t hs
  assume "makedirs_exist_ok (files w) output_path = Inr t \<and> get_hour_folders t input_path = Inr hs"
  then show "main spark w =
            (fst (process_folders spark input_path output_path hs
                    (w\<lparr>files := t, session := Running\<rparr>)),
             (snd (process_folders spark input_path output_path hs
                     (w\<lparr>files := t, session := Running\<rparr>)))\<lparr>session := Stopped\<rparr>)"
    using main_process_folders by blast
qed

theorem file_failures_are_skipped_witness:
  "result_df plain_session (files three_bucket_world) ''./logs/2024112313/a.txt''
     = Inl IllegalArgumentException
   \<and> process_files plain_session
       [''./logs/2024112313/a.txt'', ''./logs/2024112313/b.txt''] [] three_bucket_world
     = process_files plain_session [''./logs/2024112313/b.txt''] []
         (three_bucket_world\<lparr>stdout := stdout three_bucket_world
            @ [ErrorProcessingFile ''./logs/2024112313/a.txt'' IllegalArgumentException]\<rparr>)
   \<and> main plain_session three_bucket_world =
     (None,
      \<lparr>files = files three_bucket_world
         @ [(''./output'', Dir),
            (''./output/2024112313.txt'', File ''2024/11/23 13|Widget|10.50\<newline>''),
            (''./output/2024112315.txt'', File ''2024/11/23 15|Gadget|3.00\<newline>'')],
       stdout = [ErrorProcessingFile ''./logs/2024112313/a.txt'' IllegalArgumentException,
                 FileCreated ''./output/2024112313.txt'',
                 ErrorProcessingFile ''./logs/2024112314/a.txt'' IllegalArgumentException,
                 FileCreated ''./output/2024112315.txt''],
       session = Stopped\<rparr>)
   \<and> get_hour_folders (files late_block_world) input_path
     = Inr [''2024112313'', ''2024112314'', ''2024112315'']
   \<and> main plain_session late_block_world =
     (Some IsADirectoryError,
      \<lparr>files = files late_block_world
         @ [(''./output/2024112313.txt'', File ''2024/11/23 13|Widget|10.50\<newline>'')],
       stdout = [FileCreated ''./output/2024112313.txt''],
       session = Stopped\<rparr>)"
  using file_failures_are_skipped [of plain_session three_bucket_world
      "''./logs/2024112313/a.txt''" "[''./logs/2024112313/b.txt'']" "[]"]
    result_df_three_a run_three_buckets run_late_block folders_late_block
  by simp

text \<open>
  The claim as stated fails: here the input root is listed, and the run still ends with
  an exception, at the first bucket, whose output path is a directory; the second bucket
  is not processed.
\<close>

theorem write_failure_ends_run:
  "get_hour_folders (files blocked_output_world) input_path = Inr [''2024112314'', ''2024112315'']
   \<and> main plain_session blocked_output_world
       = (Some IsADirectoryError, blocked_output_world\<lparr>session := Stopped\<rparr>)"
  by code_simp

section \<open>The output file of a bucket\<close>

lemma of_char_digit:
  assumes "0 \<le> d" and "d < 10"
  shows "(of_char (char_of (48 + (d::int))) :: nat) = nat (48 + d)"
proof -
  have "(of_char (char_of (48 + d)) :: nat) = nat (of_char (char_of (48 + d)) :: int)"
    by (simp only: nat_of_char)
  also have "\<dots> = nat ((48 + d) mod 256)"
    by (simp only: of_char_of)
  also have "\<dots> = nat (48 + d)"
    using assms by simp
  finally show ?thesis .
qed

lemma digit_char_decimal:
  assumes "0 \<le> d" and "d < 10"
  shows "decimal_digit (char_of (48 + (d::int)))"
  using assms by (auto simp add: decimal_digit_def of_char_digit Let_def)

lemma decimal_digits:
  "0 \<le> n \<Longrightarrow> decimal n \<noteq> [] \<and> list_all decimal_digit (decimal n)"
proof (induction n rule: decimal.induct)
  case (1 n)
  show ?case
  proof (cases "n < 10")
    case True
    then have "decimal n = [char_of (48 + n)]"
      by (subst decimal.simps) simp
    then show ?thesis
      using "1.prems" True by (simp add: digit_char_decimal)
  next
    case False
    then have "0 \<le> n div 10" using "1.prems" by simp
    with "1.IH" False have ih: "decimal (n div 10) \<noteq> [] \<and> list_all decimal_digit (decimal (n div 10))"
      by simp
    have dg: "decimal_digit (char_of (48 + n mod 10))"
      by (rule digit_char_decimal) simp_all
    have "decimal n = decimal (n div 10) @ [char_of (48 + n mod 10)]"
      using False by (subst decimal.simps) simp
    then show ?thesis
      using ih dg by simp
  qed
qed

lemma round_half_even_nonneg: "0 \<le> x \<Longrightarrow> 0 \<le> round_half_even x"
  by (auto simp: round_half_even_def Let_def)

lemma format_2f_finite:
  "\<exists>sgn ds a b. format_2f (Finite q) = sgn @ ds @ ''.'' @ [a, b]
     \<and> (sgn = [] \<or> sgn = ''-'') \<and> ds \<noteq> [] \<and> list_all decimal_digit ds
     \<and> decimal_digit a \<and> decimal_digit b"
proof -
  define n where "n = round_half_even (\<bar>q\<bar> * 100)"
  have n: "0 \<le> n" unfolding n_def by (rule round_half_even_nonneg) simp
  then have d: "decimal (n div 100) \<noteq> [] \<and> list_all decimal_digit (decimal (n div 100))"
    by (intro decimal_digits) (simp add: pos_imp_zdiv_nonneg_iff)
  have "0 \<le> n mod 100 div 10 \<and> n mod 100 div 10 < 10"
    by (simp add: pos_imp_zdiv_nonneg_iff) 
  then have a: "decimal_digit (char_of (48 + n mod 100 div 10))"
    by (intro digit_char_decimal) simp_all
  have b: "decimal_digit (char_of (48 + n mod 10))"
    by (rule digit_char_decimal) simp_all
  have f: "format_2f (Finite q) = (if q < 0 then ''-'' else []) @ decimal (n div 100) @ ''.''
      @ [char_of (48 + n mod 100 div 10), char_of (48 + n mod 10)]"
    by (simp add: format_2f_def n_def Let_def)
  show ?thesis
    apply (rule exI [of _ "if q < 0 then ''-'' else []"])
    apply (rule exI [of _ "decimal (n div 100)"])
    apply (rule exI [of _ "char_of (48 + n mod 100 div 10)"])
    apply (rule exI [of _ "char_of (48 + n mod 10)"])
    using d a b f by simp
qed

lemma add_rows_distinct:
  "distinct (map fst hr) \<Longrightarrow> add_rows hr rows = Inr hr1 \<Longrightarrow> distinct (map fst hr1)"
proof (induction rows arbitrary: hr)
  case Nil
  then show ?case by simp
next
  case (Cons row rows)
  obtain product amount where row: "row = (product, amount)" by (cases row)
  define hr0 where "hr0 = (if map_of hr product = None then hr @ [(product, Finite 0)] else hr)"
  have d0: "distinct (map fst hr0)"
    using Cons.prems(1) by (auto simp: hr0_def map_of_eq_None_iff)
  from Cons.prems(2) obtain cur a where
    "add_rows (AList.update product (fadd cur a) hr0) rows = Inr hr1"
    unfolding row by (auto simp: hr0_def Let_def split: option.splits)
  moreover have "distinct (map fst (AList.update product (fadd cur a) hr0))"
    using d0 by (rule distinct_update)
  ultimately show ?case
    using Cons.IH by blast
qed

lemma process_files_distinct:
  "distinct (map fst hr) \<Longrightarrow> process_files spark ps hr w = (Inr hr1, w1) \<Longrightarrow>
   distinct (map fst hr1)"
proof (induction ps arbitrary: hr w)
  case Nil
  then show ?case by simp
next
  case (Cons f ps)
  show ?case
  proof (cases "process_log_file spark f w")
    case (Pair r w2)
    show ?thesis
    proof (cases r)
      case None
      then show ?thesis
        using Cons Pair by simp
    next
      case (Some df)
      then show ?thesis
        using Cons.prems Pair
        by (auto split: sum.splits intro: Cons.IH dest: add_rows_distinct)
    qed
  qed
qed

lemma format_datetime_ten:
  "length folder = 10 \<Longrightarrow>
   format_datetime folder =
     take 4 folder @ ''/'' @ take 2 (drop 4 folder) @ ''/'' @ take 2 (drop 6 folder)
       @ '' '' @ drop 8 folder"
  by (simp add: format_datetime_def slice_take_drop)

lemma two_lines:
  "concat (output_lines (format_datetime ''2024112314'')
      [(Some ''Widget'', Finite 15), (Some ''Gadget'', Finite (- (1 / 8))), (None, Finite (7 / 2))])
   = ''2024/11/23 14|Widget|15.00\<newline>2024/11/23 14|Gadget|-0.12\<newline>2024/11/23 14|None|3.50\<newline>''"
  by code_simp

text \<open>
  Claim C6, as the code has it. When the output directory is there and the bucket has no
  output file yet, the write creates \<open><output>/<bucket>.txt\<close> holding one line per
  entry of \<open>hour_results\<close>, in its order, each \<open>date|product|total\<close> and a newline.
  The date is \<open>format_datetime\<close> of the bucket id, \<open>YYYY/MM/DD HH\<close> by slices for an id
  of 10 characters; the product is the name, \<open>None\<close> for a null name; a finite total is
  written as an optional minus sign, at least one digit, a point and exactly two digits,
  an infinite total or a NaN as \<open>inf\<close>, \<open>-inf\<close> or \<open>nan\<close>. The entries of
  \<open>hour_results\<close> have distinct product names, so there is one line per product.
\<close>

theorem output_file_lines:
  assumes "map_of (files w) output_path = Some Dir"
    and "CHR ''/'' \<notin> set folder"
    and "map_of (files w) (path_join output_path (folder @ ''.txt'')) = None"
  shows "write_results output_path folder hr w =
           (None, w\<lparr>files := files w @ [(''./output/'' @ folder @ ''.txt'',
                        File (concat (output_lines (format_datetime folder) hr)))],
                    stdout := stdout w @ [FileCreated (''./output/'' @ folder @ ''.txt'')]\<rparr>)
     \<and> output_lines (format_datetime folder) hr =
         map (\<lambda>(product, total').
                format_datetime folder @ ''|'' @ format_str product @ ''|'' @ format_2f total'
                  @ ''\<newline>'') hr
     \<and> (length folder = 10 \<longrightarrow>
          format_datetime folder =
            take 4 folder @ ''/'' @ take 2 (drop 4 folder) @ ''/'' @ take 2 (drop 6 folder)
              @ '' '' @ drop 8 folder)
     \<and> (\<forall>q. \<exists>sgn ds a b. format_2f (Finite q) = sgn @ ds @ ''.'' @ [a, b]
            \<and> (sgn = [] \<or> sgn = ''-'') \<and> ds \<noteq> [] \<and> list_all decimal_digit ds
            \<and> decimal_digit a \<and> decimal_digit b)
     \<and> format_2f NegZero = ''-0.00''
     \<and> format_2f PosInf = ''inf'' \<and> format_2f NegInf = ''-inf'' \<and> format_2f NaN = ''nan''
     \<and> (\<forall>spark ps (w0::world) hr0 w1.
           process_files spark ps [] w0 = (Inr hr0, w1) \<longrightarrow> distinct (map fst hr0))"
proof -
  have j: "path_join output_path (folder @ ''.txt'') = ''./output/'' @ folder @ ''.txt''"
    using assms(2) by (cases folder) (auto simp: path_join_def output_path_def)
  have d: "dirname (''./output/'' @ folder @ ''.txt'') = output_path"
    using dirname_output_file [OF assms(2)] j by simp
  have "output_path \<noteq> []" by (simp add: output_path_def)
  then have w: "write_results output_path folder hr w =
           (None, w\<lparr>files := files w @ [(''./output/'' @ folder @ ''.txt'',
                        File (concat (output_lines (format_datetime folder) hr)))],
                    stdout := stdout w @ [FileCreated (''./output/'' @ folder @ ''.txt'')]\<rparr>)"
    using assms(1,3) d unfolding j
    by (simp add: write_results_def Let_def j open_append_def)
  have dd: "distinct (map fst hr0)" if "process_files spark ps [] w0 = (Inr hr0, w1)"
    for spark ps and w0 :: world and hr0 w1
    using process_files_distinct [OF _ that] by simp
  show ?thesis
    using w format_datetime_ten format_2f_finite dd
    by (simp add: output_lines_def format_2f_def)
qed

theorem output_file_lines_witness:
  "map_of (files garbage_bucket_world) output_path = Some Dir
   \<and> map_of (files garbage_bucket_world) (path_join output_path (''2024112314'' @ ''.txt'')) = None
   \<and> write_results output_path ''2024112314''
        [(Some ''Widget'', Finite 15), (Some ''Gadget'', Finite (- (1 / 8))), (None, Finite (7 / 2))]
        garbage_bucket_world
      = (None, garbage_bucket_world
           \<lparr>files := files garbage_bucket_world @ [(''./output/2024112314.txt'',
               File ''2024/11/23 14|Widget|15.00\<newline>2024/11/23 14|Gadget|-0.12\<newline>2024/11/23 14|None|3.50\<newline>'')],
            stdout := [FileCreated ''./output/2024112314.txt'']\<rparr>)"
proof -
  have d: "map_of (files garbage_bucket_world) output_path = Some Dir"
    by (simp add: garbage_bucket_world_def output_path_def)
  have s: "CHR ''/'' \<notin> set ''2024112314''"
    by simp
  have n: "map_of (files garbage_bucket_world) (path_join output_path (''2024112314'' @ ''.txt''))
      = None"
    by (simp add: garbage_bucket_world_def output_path_def path_join_def)
  have o: "stdout garbage_bucket_world = []"
    by (simp add: garbage_bucket_world_def)
  show ?thesis
    using output_file_lines [OF d s n, THEN conjunct1,
        of "[(Some ''Widget'', Finite 15), (Some ''Gadget'', Finite (- (1 / 8))), (None, Finite (7 / 2))]"]
      d n
    by (simp add: two_lines o)
qed

text \<open>
  The claim as stated fails: a price of \<open>10 ^ 39\<close> is beyond the range of binary32, the
  cast gives infinity, and the total is written as \<open>inf\<close>, with no decimal digits.
\<close>

theorem infinite_total_line:
  "plain_cast_float ''1000000000000000000000000000000000000000'' = Some PosInf
   \<and> main plain_session huge_price_world =
       (None,
        \<lparr>files = files huge_price_world
           @ [(''./output'', Dir),
              (''./output/2024112314.txt'', File ''2024/11/23 14|Widget|inf\<newline>'')],
         stdout = [FileCreated ''./output/2024112314.txt''],
         session = Stopped\<rparr>)"
  by code_simp

section \<open>The totals of a file with malformed lines\<close>



















end
